theory Spec2Isabelle
  imports Main
begin

unbundle bit_operations_syntax

section \<open>TypeScript computations: side effects and thrown values\<close>

text \<open>
  A TypeScript function may change the state of the program and may throw instead of
  returning. A JavaScript \<^verbatim>\<open>Error\<close> object is modelled by its message; a
  \<^verbatim>\<open>throw\<close> carries such an object, \<^verbatim>\<open>undefined\<close>, or any other value.
\<close>

datatype Error = Error (message: string)

datatype 'x thrown = ThrownError Error | ThrownUndefined | ThrownValue 'x

text \<open>
  A computation takes the state \<open>'s\<close> it starts in and gives what it returned
  (\<open>Inr\<close>) or threw (\<open>Inl\<close>), with the state it leaves. A thunk \<^verbatim>\<open>() => U\<close> is a
  computation; calling it runs it. A callback \<^verbatim>\<open>(a: A) => B\<close> is a function
  into computations.
\<close>

type_synonym ('a, 'x, 's) comp = "'s \<Rightarrow> ('x thrown + 'a) \<times> 's"

definition return :: "'a \<Rightarrow> ('a, 'x, 's) comp" where
  "return a = (\<lambda>s. (Inr a, s))"

definition throw :: "'x thrown \<Rightarrow> ('a, 'x, 's) comp" where
  "throw e = (\<lambda>s. (Inl e, s))"

definition bind :: "('a, 'x, 's) comp \<Rightarrow> ('a \<Rightarrow> ('b, 'x, 's) comp) \<Rightarrow> ('b, 'x, 's) comp" where
  "bind m k = (\<lambda>s. case m s of (Inl e, s') \<Rightarrow> (Inl e, s') | (Inr a, s') \<Rightarrow> k a s')"

text \<open>
  A callback that always returns, after changing the state in any way it likes.
\<close>

definition total :: "('s \<Rightarrow> 'a \<times> 's) \<Rightarrow> ('a, 'x, 's) comp" where
  "total g = (\<lambda>s. case g s of (a, s') \<Rightarrow> (Inr a, s'))"

text \<open>
  The test harness of a laziness test: the thunk with a counter of its invocations
  beside the state.
\<close>

definition counted :: "('a, 'x, 's) comp \<Rightarrow> ('a, 'x, nat \<times> 's) comp" where
  "counted t = (\<lambda>(n, s). case t s of (r, s') \<Rightarrow> (r, (Suc n, s')))"

section \<open>The Option module (src/fpbookclub/error\_handling/option.ts)\<close>

datatype 'a Option = OSome (val: 'a) | ONone

definition NONE :: "'a Option" where
  "NONE = ONone"

definition OptionBase_filter ::
  "'a Option \<Rightarrow> ('a \<Rightarrow> (bool, 'x, 's) comp) \<Rightarrow> ('a Option, 'x, 's) comp" where
  "OptionBase_filter this p = throw (ThrownError (Error ''Not implemented''))"

definition OptionBase_flatMap ::
  "'a Option \<Rightarrow> ('a \<Rightarrow> ('b Option, 'x, 's) comp) \<Rightarrow> ('b Option, 'x, 's) comp" where
  "OptionBase_flatMap this f = throw (ThrownError (Error ''Not implemented''))"

definition OptionBase_getOrElse ::
  "'u Option \<Rightarrow> ('u, 'x, 's) comp \<Rightarrow> ('u, 'x, 's) comp" where
  "OptionBase_getOrElse this onEmpty =
     (case this of OSome v \<Rightarrow> return v | ONone \<Rightarrow> onEmpty)"

definition OptionBase_map ::
  "'a Option \<Rightarrow> ('a \<Rightarrow> ('b, 'x, 's) comp) \<Rightarrow> ('b Option, 'x, 's) comp" where
  "OptionBase_map this f =
     (case this of ONone \<Rightarrow> return NONE | OSome v \<Rightarrow> bind (f v) (\<lambda>b. return (OSome b)))"

definition OptionBase_orElse ::
  "'u Option \<Rightarrow> ('u Option, 'x, 's) comp \<Rightarrow> ('u Option, 'x, 's) comp" where
  "OptionBase_orElse this ou = throw (ThrownError (Error ''Not implemented''))"

section \<open>The Option module as the chapter completes it (src/site/src/chapter\_4.md)\<close>

text \<open>
  The smart constructors, and the answer to Exercise 4.1: \<^verbatim>\<open>map\<close> and
  \<^verbatim>\<open>getOrElse\<close> examine the tag, the other three are written in terms of them.
\<close>

definition none :: "'a Option" where
  "none = NONE"

definition some :: "'a \<Rightarrow> 'a Option" where
  "some a = OSome a"

definition ex41_getOrElse ::
  "'u Option \<Rightarrow> ('u, 'x, 's) comp \<Rightarrow> ('u, 'x, 's) comp" where
  "ex41_getOrElse this onEmpty =
     (case this of ONone \<Rightarrow> onEmpty | OSome v \<Rightarrow> return v)"

definition ex41_map ::
  "'a Option \<Rightarrow> ('a \<Rightarrow> ('b, 'x, 's) comp) \<Rightarrow> ('b Option, 'x, 's) comp" where
  "ex41_map this f =
     (case this of ONone \<Rightarrow> return none | OSome v \<Rightarrow> bind (f v) (\<lambda>b. return (some b)))"

definition ex41_flatMap ::
  "'a Option \<Rightarrow> ('a \<Rightarrow> ('b Option, 'x, 's) comp) \<Rightarrow> ('b Option, 'x, 's) comp" where
  "ex41_flatMap this f =
     bind (ex41_map this f) (\<lambda>opt. ex41_getOrElse opt (return none))"

definition ex41_filter ::
  "'a Option \<Rightarrow> ('a \<Rightarrow> (bool, 'x, 's) comp) \<Rightarrow> ('a Option, 'x, 's) comp" where
  "ex41_filter this p =
     ex41_flatMap this (\<lambda>a. bind (p a) (\<lambda>b. return (if b then some a else none)))"

definition ex41_orElse ::
  "'u Option \<Rightarrow> ('u Option, 'x, 's) comp \<Rightarrow> ('u Option, 'x, 's) comp" where
  "ex41_orElse this ou =
     bind (ex41_map this (\<lambda>a. return (some a))) (\<lambda>opt. ex41_getOrElse opt ou)"

text \<open>Exercise 4.3.\<close>

definition map2_option ::
  "'a Option \<Rightarrow> 'b Option \<Rightarrow> ('a \<Rightarrow> 'b \<Rightarrow> ('c, 'x, 's) comp) \<Rightarrow> ('c Option, 'x, 's) comp" where
  "map2_option oa ob f = ex41_flatMap oa (\<lambda>a. ex41_map ob (\<lambda>b. f a b))"

text \<open>
  \<^verbatim>\<open>try { return some(f()); } catch (e) { return none(); }\<close>: the handler runs in
  the state the body left when it threw.
\<close>

definition try_catch ::
  "('a, 'x, 's) comp \<Rightarrow> ('x thrown \<Rightarrow> ('a, 'x, 's) comp) \<Rightarrow> ('a, 'x, 's) comp" where
  "try_catch body handler =
     (\<lambda>s. case body s of (Inl e, s') \<Rightarrow> handler e s' | (Inr a, s') \<Rightarrow> (Inr a, s'))"

definition Try_option :: "('a, 'x, 's) comp \<Rightarrow> ('a Option, 'x, 's) comp" where
  "Try_option f = try_catch (bind f (\<lambda>a. return (some a))) (\<lambda>e. return none)"

subsection \<open>Lists\<close>

text \<open>
  Modelled from the spec: the \<^verbatim>\<open>List\<close> module of Chapter 3 (\<^verbatim>\<open>Cons\<close>,
  \<^verbatim>\<open>List()\<close>, \<^verbatim>\<open>foldRight\<close>) is not among the sources; the spec assumes "a generic
  ordered-sequence type supporting at least construction from literal elements,
  right-fold, and order-preserving traversal". A \<^verbatim>\<open>List\<close> is a HOL list,
  \<^verbatim>\<open>new Cons(h, t)\<close> is \<open>h # t\<close>, \<^verbatim>\<open>List()\<close> is \<open>[]\<close>, and the right fold
  calls \<open>f\<close> on the head and the fold of the tail, the tail folded first.
\<close>

fun foldRight ::
  "'a list \<Rightarrow> 'b \<Rightarrow> ('a \<Rightarrow> 'b \<Rightarrow> ('b, 'x, 's) comp) \<Rightarrow> ('b, 'x, 's) comp" where
  "foldRight [] z f = return z"
| "foldRight (h # t) z f = bind (foldRight t z f) (\<lambda>r. f h r)"

text \<open>Exercise 4.4 and Exercise 4.5.\<close>

definition sequence_option :: "'a Option list \<Rightarrow> ('a list Option, 'x, 's) comp" where
  "sequence_option ls =
     (case ls of
        [] \<Rightarrow> return none
      | _ # _ \<Rightarrow>
          foldRight ls (some []) (\<lambda>oa ol. map2_option ol oa (\<lambda>la a. return (a # la))))"

definition traverse_option ::
  "'a list \<Rightarrow> ('a \<Rightarrow> ('b Option, 'x, 's) comp) \<Rightarrow> ('b list Option, 'x, 's) comp" where
  "traverse_option ls f =
     (case ls of
        [] \<Rightarrow> return none
      | _ # _ \<Rightarrow>
          foldRight ls (some [])
            (\<lambda>a ol. bind (f a) (\<lambda>ob. map2_option ol ob (\<lambda>la b. return (b # la)))))"

definition sequence_by_traverse :: "'a Option list \<Rightarrow> ('a list Option, 'x, 's) comp" where
  "sequence_by_traverse ls = traverse_option ls (\<lambda>oa. return oa)"

section \<open>The Either module (src/site/src/chapter\_4.md)\<close>

datatype ('e, 'a) Either = Left 'e | Right 'a

definition left :: "'e \<Rightarrow> ('e, 'a) Either" where
  "left v = Left v"

definition right :: "'a \<Rightarrow> ('e, 'a) Either" where
  "right v = Right v"

text \<open>
  \<^verbatim>\<open>new Error(e)\<close>, by the language standard: when the argument is
  \<^verbatim>\<open>undefined\<close> (here \<open>None\<close>) the new \<^verbatim>\<open>Error\<close> has the empty message;
  otherwise the message is the result of the conversion \<^verbatim>\<open>ToString\<close> of the
  argument. The conversion is a built-in, taken as the parameter \<open>ToString\<close>: it
  may run code of the value (its \<^verbatim>\<open>toString\<close> method) and it may throw, and then
  the constructor throws the same.
\<close>

definition new_Error ::
  "('x \<Rightarrow> (string, 'x, 's) comp) \<Rightarrow> 'x option \<Rightarrow> (Error, 'x, 's) comp" where
  "new_Error ToString msg =
     (case msg of
        None \<Rightarrow> return (Error [])
      | Some v \<Rightarrow> bind (ToString v) (\<lambda>str. return (Error str)))"

text \<open>
  \<^verbatim>\<open>try { return right(f()); } catch (e) { if (e instanceof Error) return left(e);
  else return left(new Error(e)); }\<close>: what the handler throws is thrown by
  \<^verbatim>\<open>Try\<close>.
\<close>

definition Try_either ::
  "('x \<Rightarrow> (string, 'x, 's) comp) \<Rightarrow> ('a, 'x, 's) comp \<Rightarrow> ((Error, 'a) Either, 'x, 's) comp" where
  "Try_either ToString f =
     try_catch (bind f (\<lambda>a. return (right a)))
       (\<lambda>e. case e of
               ThrownError err \<Rightarrow> return (left err)
             | ThrownUndefined \<Rightarrow> bind (new_Error ToString None) (\<lambda>err. return (left err))
             | ThrownValue v \<Rightarrow> bind (new_Error ToString (Some v)) (\<lambda>err. return (left err)))"

text \<open>
  Three kinds of values a program can throw, and \<^verbatim>\<open>ToString\<close> on them as the
  language standard has it: a string is its own conversion; a Symbol (given with its
  description) has none, the conversion throws a \<^verbatim>\<open>TypeError\<close> (the message is
  the one of Node.js); the object literal \<^verbatim>\<open>{code: n}\<close>, which inherits
  \<^verbatim>\<open>Object.prototype.toString\<close>, converts to \<^verbatim>\<open>"[object Object]"\<close>.
\<close>

datatype js_value = JSString string | JSSymbol string | JSCodeObject int

fun ToString_js :: "js_value \<Rightarrow> (string, js_value, 's) comp" where
  "ToString_js (JSString str) = return str"
| "ToString_js (JSSymbol description) =
     throw (ThrownError (Error ''Cannot convert a Symbol value to a string''))"
| "ToString_js (JSCodeObject n) = return ''[object Object]''"

text \<open>The answer to Exercise 4.6.\<close>

definition EitherBase_flatMap ::
  "('e, 'a) Either \<Rightarrow> ('a \<Rightarrow> (('e, 'b) Either, 'x, 's) comp) \<Rightarrow> (('e, 'b) Either, 'x, 's) comp" where
  "EitherBase_flatMap this f =
     (case this of Left v \<Rightarrow> return (left v) | Right v \<Rightarrow> f v)"

definition EitherBase_map ::
  "('e, 'a) Either \<Rightarrow> ('a \<Rightarrow> ('b, 'x, 's) comp) \<Rightarrow> (('e, 'b) Either, 'x, 's) comp" where
  "EitherBase_map this f =
     EitherBase_flatMap this (\<lambda>a. bind (f a) (\<lambda>b. return (right b)))"

definition EitherBase_orElse ::
  "('e, 'a) Either \<Rightarrow> (('e, 'a) Either, 'x, 's) comp \<Rightarrow> (('e, 'a) Either, 'x, 's) comp" where
  "EitherBase_orElse this b =
     (case this of Left _ \<Rightarrow> b | Right _ \<Rightarrow> return this)"

definition map2_either ::
  "('e, 'a) Either \<Rightarrow> ('e, 'b) Either \<Rightarrow> ('a \<Rightarrow> 'b \<Rightarrow> ('c, 'x, 's) comp)
     \<Rightarrow> (('e, 'c) Either, 'x, 's) comp" where
  "map2_either e1 e2 f = EitherBase_flatMap e1 (\<lambda>a. EitherBase_map e2 (\<lambda>b. f a b))"

text \<open>The answer to Exercise 4.7.\<close>

definition traverse_either ::
  "'a list \<Rightarrow> ('a \<Rightarrow> (('e, 'b) Either, 'x, 's) comp) \<Rightarrow> (('e, 'b list) Either, 'x, 's) comp" where
  "traverse_either aa f =
     foldRight aa (right [])
       (\<lambda>a elb. bind (f a) (\<lambda>eb. map2_either eb elb (\<lambda>b lb. return (b # lb))))"

definition sequence_either :: "('e, 'a) Either list \<Rightarrow> (('e, 'a list) Either, 'x, 's) comp" where
  "sequence_either le = traverse_either le (\<lambda>ea. return ea)"

section \<open>The pseudo-random generator (src/fpbookclub/state/RNG.ts)\<close>

text \<open>
  A \<^verbatim>\<open>bigint\<close> is an unbounded integer; \<^verbatim>\<open>&\<close> and \<^verbatim>\<open>>>\<close> on it are the
  two's-complement operations \<open>AND\<close> and \<open>drop_bit\<close> of \<open>int\<close>.
  \<^verbatim>\<open>BigInt.asIntN(bits, x)\<close> is, by the language standard, \<open>x\<close> modulo \<open>2 ^ bits\<close>,
  less \<open>2 ^ bits\<close> when that is at least \<open>2 ^ (bits - 1)\<close>.
\<close>

definition asIntN :: "nat \<Rightarrow> int \<Rightarrow> int" where
  "asIntN bits x =
     (let m = x mod 2 ^ bits in if 0 < bits \<and> 2 ^ (bits - 1) \<le> m then m - 2 ^ bits else m)"

text \<open>
  \<^verbatim>\<open>Number(x)\<close> of a \<^verbatim>\<open>bigint\<close> is the nearest double, which is \<open>x\<close> itself
  when \<open>\<bar>x\<bar> \<le> 2 ^ 53\<close>; beyond that the model says nothing.
\<close>

definition Number :: "int \<Rightarrow> int option" where
  "Number x = (if \<bar>x\<bar> \<le> 2 ^ 53 then Some x else None)"

record SimpleRNG =
  seed :: int

definition new_SimpleRNG :: "int \<Rightarrow> SimpleRNG" where
  "new_SimpleRNG seed0 = \<lparr>seed = asIntN 64 seed0\<rparr>"

definition nextInt :: "SimpleRNG \<Rightarrow> (int \<times> SimpleRNG) option" where
  "nextInt this =
     (let newSeed = asIntN 64 (seed this * 0x5DEECE66D + 0xB) AND 0xFFFFFFFFFFFF;
          nextRNG = new_SimpleRNG newSeed
      in case Number (asIntN 32 (drop_bit 16 newSeed)) of
           None \<Rightarrow> None
         | Some n \<Rightarrow> Some (n, nextRNG))"

section \<open>Laws of computations\<close>

lemma bind_return [simp]: "bind (return a) k = k a"
  by (simp add: bind_def return_def)

lemma bind_throw [simp]: "bind (throw e) k = throw e"
  by (simp add: bind_def throw_def)

lemma bind_return_right [simp]: "bind m return = m"
  by (auto simp: bind_def return_def fun_eq_iff split: prod.splits sum.splits)

lemma bind_assoc: "bind (bind m k) h = bind m (\<lambda>a. bind (k a) h)"
  by (auto simp: bind_def fun_eq_iff split: prod.splits sum.splits)

lemma bind_total:
  "bind (total g) k s = (case g s of (a, s') \<Rightarrow> k a s')"
  by (simp add: bind_def total_def split: prod.splits)

section \<open>The Option combinators of option.ts\<close>

text \<open>
  \<^verbatim>\<open>map\<close> and \<^verbatim>\<open>getOrElse\<close> of option.ts return normally whenever the
  callback does.
\<close>

lemma OptionBase_map_returns:
  "\<exists>v s'. OptionBase_map opt (\<lambda>a. total (g a)) s = (Inr v, s')"
  by (cases opt) (simp_all add: OptionBase_map_def bind_total return_def split: prod.splits)

lemma OptionBase_getOrElse_returns:
  "\<exists>v s'. OptionBase_getOrElse opt (total g) s = (Inr v, s')"
  by (cases opt) (simp_all add: OptionBase_getOrElse_def total_def return_def split: prod.splits)

text \<open>
  C1. The specification has each of \<^verbatim>\<open>map\<close>, \<^verbatim>\<open>flatMap\<close>, \<^verbatim>\<open>filter\<close>,
  \<^verbatim>\<open>getOrElse\<close> and \<^verbatim>\<open>orElse\<close> return normally on every Option. In
  option.ts \<^verbatim>\<open>filter\<close> does not: \<^verbatim>\<open>new Some(1).filter(a => true)\<close> throws
  the error "Not implemented" (and so do \<^verbatim>\<open>flatMap\<close> and \<^verbatim>\<open>orElse\<close>, see C2
  and C5).
\<close>

theorem OptionBase_filter_throws:
  "OptionBase_filter (OSome (1::int)) (\<lambda>a. return True) ()
     = (Inl (ThrownError (Error ''Not implemented'') :: unit thrown), ())"
  by (simp add: OptionBase_filter_def throw_def)

text \<open>
  C2. The specification has \<^verbatim>\<open>flatMap\<close> on \<^verbatim>\<open>Some(a)\<close> equal \<^verbatim>\<open>f(a)\<close>
  and on \<^verbatim>\<open>None\<close> equal \<^verbatim>\<open>None\<close>. In option.ts
  \<^verbatim>\<open>new Some(1).flatMap(a => new Some(a + 1))\<close> throws the error "Not implemented"
  instead of returning \<^verbatim>\<open>Some(2)\<close>.
\<close>

theorem OptionBase_flatMap_throws:
  "OptionBase_flatMap (OSome (1::int)) (\<lambda>a. return (OSome (a + 1))) ()
     = (Inl (ThrownError (Error ''Not implemented'') :: unit thrown), ())"
  by (simp add: OptionBase_flatMap_def throw_def)

text \<open>
  C3. \<^verbatim>\<open>getOrElse\<close> on \<^verbatim>\<open>Some(a)\<close> returns \<open>a\<close> and leaves the state as it
  was whatever the thunk is, so the thunk did not run: a counting thunk still counts 0.
  On \<^verbatim>\<open>None\<close> it is one run of the thunk: the same result, the same final
  state, and a counting thunk counts 1.
\<close>

theorem getOrElse_lazy:
  "OptionBase_getOrElse (OSome a) onEmpty s = (Inr a, s)
   \<and> OptionBase_getOrElse (OSome a) (counted t) (0, s) = (Inr a, (0, s))
   \<and> OptionBase_getOrElse ONone onEmpty s = onEmpty s
   \<and> OptionBase_getOrElse ONone (counted t) (0, s) = (fst (t s), (1, snd (t s)))"
  by (simp add: OptionBase_getOrElse_def return_def counted_def split: prod.splits)

text \<open>
  C4. \<^verbatim>\<open>map\<close> on \<^verbatim>\<open>Some(a)\<close> with a function \<open>f\<close> returns
  \<^verbatim>\<open>Some(f(a))\<close>; on \<^verbatim>\<open>None\<close> it returns \<^verbatim>\<open>None\<close> for any callback, which
  does not run; with the identity it returns the Option it was given.
\<close>

theorem map_Some_None_identity:
  "OptionBase_map (OSome a) (\<lambda>x. return (f x)) = return (OSome (f a))
   \<and> OptionBase_map ONone g = return ONone
   \<and> OptionBase_map opt (\<lambda>x. return x) = return opt"
  by (cases opt) (simp_all add: OptionBase_map_def NONE_def)

text \<open>
  C5. The specification has \<^verbatim>\<open>orElse\<close> on \<^verbatim>\<open>Some(a)\<close> equal \<^verbatim>\<open>Some(a)\<close>
  and on \<^verbatim>\<open>None\<close> equal the alternative. In option.ts
  \<^verbatim>\<open>new Some(1).orElse(() => new Some(2))\<close> throws the error "Not implemented"
  instead of returning \<^verbatim>\<open>Some(1)\<close>.
\<close>

theorem OptionBase_orElse_throws:
  "OptionBase_orElse (OSome (1::int)) (return (OSome 2)) ()
     = (Inl (ThrownError (Error ''Not implemented'') :: unit thrown), ())"
  by (simp add: OptionBase_orElse_def throw_def)

section \<open>The Option combinators of the chapter\<close>

lemma ex41_getOrElse_simps [simp]:
  "ex41_getOrElse (OSome a) onEmpty = return a"
  "ex41_getOrElse ONone onEmpty = onEmpty"
  by (simp_all add: ex41_getOrElse_def)

lemma ex41_map_simps [simp]:
  "ex41_map (OSome a) f = bind (f a) (\<lambda>b. return (OSome b))"
  "ex41_map ONone f = return ONone"
  by (simp_all add: ex41_map_def some_def none_def NONE_def)

text \<open>
  The chapter's \<^verbatim>\<open>flatMap\<close>, \<^verbatim>\<open>orElse\<close> and \<^verbatim>\<open>filter\<close> do what option.ts
  leaves unimplemented: \<^verbatim>\<open>flatMap\<close> on \<^verbatim>\<open>Some(a)\<close> is the call \<open>f a\<close> and on
  \<^verbatim>\<open>None\<close> returns \<^verbatim>\<open>None\<close> in the same state for every \<open>f\<close>;
  \<^verbatim>\<open>orElse\<close> on \<^verbatim>\<open>Some(a)\<close> returns it in the same state for every thunk, and
  on \<^verbatim>\<open>None\<close> is the thunk.
\<close>

lemma ex41_flatMap_simps [simp]:
  "ex41_flatMap (OSome a) f = f a"
  "ex41_flatMap ONone f = return ONone"
  by (simp_all add: ex41_flatMap_def bind_assoc none_def NONE_def)

lemma ex41_orElse_simps [simp]:
  "ex41_orElse (OSome a) ou = return (OSome a)"
  "ex41_orElse ONone ou = ou"
  by (simp_all add: ex41_orElse_def some_def)

lemma ex41_filter_simps [simp]:
  "ex41_filter (OSome a) (\<lambda>x. return (p x)) = return (if p a then OSome a else ONone)"
  "ex41_filter ONone q = return ONone"
  by (simp_all add: ex41_filter_def some_def none_def NONE_def)

lemma map2_option_simps [simp]:
  "map2_option (OSome a) (OSome b) f = bind (f a b) (\<lambda>c. return (OSome c))"
  "map2_option (OSome a) ONone f = return ONone"
  "map2_option ONone ob f = return ONone"
  by (simp_all add: map2_option_def)

section \<open>The Either combinators\<close>

lemma EitherBase_flatMap_simps [simp]:
  "EitherBase_flatMap (Left e) f = return (Left e)"
  "EitherBase_flatMap (Right a) f = f a"
  by (simp_all add: EitherBase_flatMap_def left_def)

lemma EitherBase_map_simps [simp]:
  "EitherBase_map (Left e) f = return (Left e)"
  "EitherBase_map (Right a) f = bind (f a) (\<lambda>b. return (Right b))"
  by (simp_all add: EitherBase_map_def right_def)

text \<open>
  C6. \<^verbatim>\<open>map2\<close> on two \<^verbatim>\<open>Right\<close>s returns \<^verbatim>\<open>Right(f(a, b))\<close>. When the
  left operand is a \<^verbatim>\<open>Left\<close> it returns that \<^verbatim>\<open>Left\<close> whatever the right
  operand and the callback are; when only the right operand is a \<^verbatim>\<open>Left\<close> it
  returns that one; so of two \<^verbatim>\<open>Left\<close>s it returns the first.
\<close>

theorem map2_either_first_Left:
  "map2_either (Right a) (Right b) (\<lambda>x y. return (f x y)) = return (Right (f a b))
   \<and> map2_either (Left e1) eb g = return (Left e1)
   \<and> map2_either (Right a) (Left e2) g = return (Left e2)
   \<and> map2_either (Left e1) (Left e2) g = return (Left e1)"
  by (simp add: map2_either_def)

section \<open>Sequence and traverse\<close>

text \<open>
  As stated, "None iff at least one \<open>f(x)\<close> is None" fails on the empty list:
  \<^verbatim>\<open>traverse\<close> returns \<^verbatim>\<open>None\<close> there although no element is mapped to
  \<^verbatim>\<open>None\<close>.
\<close>

theorem traverse_option_empty_counterexample:
  "traverse_option ([] :: nat list) (\<lambda>a. return (OSome a)) ()
     = (Inr ONone :: unit thrown + nat list Option, ())
   \<and> filter (\<lambda>a. OSome a = ONone) ([] :: nat list) = []"
  by (simp add: traverse_option_def none_def NONE_def return_def)

lemma foldRight_traverse_option:
  "foldRight ls (some []) (\<lambda>a ol. map2_option ol (f a) (\<lambda>la b. return (b # la)))
   = return (if \<exists>x\<in>set ls. f x = ONone then ONone else OSome (map (\<lambda>x. val (f x)) ls))"
proof (induction ls)
  case Nil
  show ?case by (simp add: some_def)
next
  case (Cons h t)
  show ?case
  proof (cases "f h")
    case ONone
    then show ?thesis
      by (cases "\<exists>x\<in>set t. f x = ONone") (simp_all add: Cons.IH)
  next
    case (OSome b)
    then show ?thesis
      by (cases "\<exists>x\<in>set t. f x = ONone") (simp_all add: Cons.IH)
  qed
qed

text \<open>
  C7 (amended). On a list that is not empty, \<^verbatim>\<open>traverse\<close> with a function
  \<open>f\<close> returns \<^verbatim>\<open>None\<close> if and only if \<open>f\<close> maps at least one element to
  \<^verbatim>\<open>None\<close>, and otherwise returns \<^verbatim>\<open>Some\<close> of the list of the values of
  \<open>f\<close>, in the order of the elements.
\<close>

theorem traverse_option_nonempty:
  assumes "ls \<noteq> []"
  shows "traverse_option ls (\<lambda>a. return (f a))
   = return (if \<exists>x\<in>set ls. f x = ONone then ONone else OSome (map (\<lambda>x. val (f x)) ls))"
  using assms foldRight_traverse_option [of ls f]
  by (cases ls) (simp_all add: traverse_option_def)

theorem traverse_option_nonempty_witness:
  "[1, 2, 3 :: nat] \<noteq> []
   \<and> traverse_option [1, 2, 3 :: nat] (\<lambda>a. return (if a = 0 then ONone else OSome (10 * a)))
       = return (OSome [10, 20, 30])
   \<and> traverse_option [1, 0, 3 :: nat] (\<lambda>a. return (if a = 0 then ONone else OSome (10 * a)))
       = return ONone"
  using traverse_option_nonempty [of "[1, 2, 3 :: nat]" "\<lambda>a. if a = 0 then ONone else OSome (10 * a)"]
    traverse_option_nonempty [of "[1, 0, 3 :: nat]" "\<lambda>a. if a = 0 then ONone else OSome (10 * a)"]
  by simp

text \<open>
  As stated, "the failure case for the Either type" fails: on the empty list
  \<^verbatim>\<open>traverse\<close> of the Either module returns \<^verbatim>\<open>Right\<close> of the empty list.
\<close>

theorem traverse_either_empty_counterexample:
  "traverse_either ([] :: nat list) (\<lambda>a. return (Right a)) ()
     = (Inr (Right []) :: unit thrown + (string, nat list) Either, ())"
  by (simp add: traverse_either_def right_def return_def)

text \<open>
  C8 (amended). On the empty list, \<^verbatim>\<open>sequence\<close> and \<^verbatim>\<open>traverse\<close> of the
  Option module (and \<^verbatim>\<open>sequence\<close> written with \<^verbatim>\<open>traverse\<close>) return
  \<^verbatim>\<open>None\<close>; \<^verbatim>\<open>traverse\<close> and \<^verbatim>\<open>sequence\<close> of the Either module return
  \<^verbatim>\<open>Right\<close> of the empty list.
\<close>

theorem empty_input:
  "sequence_option [] = return ONone
   \<and> traverse_option [] f = return ONone
   \<and> sequence_by_traverse [] = return ONone
   \<and> traverse_either [] g = return (Right [])
   \<and> sequence_either [] = return (Right [])"
  by (simp add: sequence_option_def traverse_option_def sequence_by_traverse_def
      traverse_either_def sequence_either_def none_def NONE_def right_def)

section \<open>Converting thrown values\<close>

text \<open>
  As stated, "when the thunk throws, \<^verbatim>\<open>Try\<close> returns a \<^verbatim>\<open>Left\<close> whose payload
  preserves the descriptive information" fails. When the thunk throws a Symbol,
  \<^verbatim>\<open>new Error(e)\<close> throws in the handler and \<^verbatim>\<open>Try\<close> throws a
  \<^verbatim>\<open>TypeError\<close> instead of returning. When it throws \<^verbatim>\<open>{code: 42}\<close> or
  \<^verbatim>\<open>{code: 7}\<close> the payload is the same \<^verbatim>\<open>Error("[object Object]")\<close>: the code
  is lost.
\<close>

theorem Try_either_counterexample:
  "Try_either ToString_js (throw (ThrownValue (JSSymbol ''s'')) :: (int, js_value, unit) comp) ()
     = (Inl (ThrownError (Error ''Cannot convert a Symbol value to a string'')), ())
   \<and> Try_either ToString_js (throw (ThrownValue (JSCodeObject 42)) :: (int, js_value, unit) comp) ()
     = (Inr (Left (Error ''[object Object]'')), ())
   \<and> Try_either ToString_js (throw (ThrownValue (JSCodeObject 7)) :: (int, js_value, unit) comp) ()
     = (Inr (Left (Error ''[object Object]'')), ())"
  by (simp add: Try_either_def try_catch_def new_Error_def bind_def return_def throw_def
      left_def)

text \<open>
  When the conversion of the thrown value throws, \<^verbatim>\<open>Try\<close> of the Either module
  throws the same, in the state the conversion left.
\<close>

lemma Try_either_rethrows:
  assumes "f s = (Inl (ThrownValue v), s')" and "ToString v s' = (Inl e, s'')"
  shows "Try_either ToString f s = (Inl e, s'')"
  using assms
  by (simp add: Try_either_def try_catch_def new_Error_def bind_def return_def)

text \<open>
  C9 (amended). When the thunk returns \<open>a\<close>, \<^verbatim>\<open>Try\<close> returns \<^verbatim>\<open>Some(a)\<close>,
  and \<^verbatim>\<open>Right(a)\<close> in the Either module. When the thunk throws, \<^verbatim>\<open>Try\<close> of
  the Option module returns \<^verbatim>\<open>None\<close>. \<^verbatim>\<open>Try\<close> of the Either module returns
  \<^verbatim>\<open>Left\<close> of the thrown \<^verbatim>\<open>Error\<close> itself; for a thrown
  \<^verbatim>\<open>undefined\<close>, \<^verbatim>\<open>Left\<close> of a new \<^verbatim>\<open>Error\<close> with the empty message; and
  for any other thrown value whose conversion to a string returns, \<^verbatim>\<open>Left\<close> of a
  new \<^verbatim>\<open>Error\<close> whose message is that string, in the state the conversion left.
\<close>

theorem Try_converts_faults:
  "(f s = (Inr a, s') \<longrightarrow>
      Try_option f s = (Inr (OSome a), s') \<and> Try_either ToString f s = (Inr (Right a), s'))
   \<and> (f s = (Inl e, s') \<longrightarrow> Try_option f s = (Inr ONone, s'))
   \<and> (f s = (Inl (ThrownError err), s') \<longrightarrow>
      Try_either ToString f s = (Inr (Left err), s'))
   \<and> (f s = (Inl ThrownUndefined, s') \<longrightarrow>
      Try_either ToString f s = (Inr (Left (Error [])), s'))
   \<and> (f s = (Inl (ThrownValue v), s') \<and> ToString v s' = (Inr str, s'') \<longrightarrow>
      Try_either ToString f s = (Inr (Left (Error str)), s''))"
  by (simp add: Try_option_def Try_either_def try_catch_def bind_def return_def
      some_def none_def NONE_def left_def right_def new_Error_def)

theorem Try_converts_faults_witness:
  "Try_option (return (10 :: int)) () = (Inr (OSome 10) :: js_value thrown + int Option, ())
   \<and> Try_either ToString_js (return (10 :: int)) () = (Inr (Right 10), ())
   \<and> Try_option (throw (ThrownError (Error ''URI malformed'')) :: (int, js_value, unit) comp) ()
       = (Inr ONone, ())
   \<and> Try_either ToString_js
         (throw (ThrownError (Error ''URI malformed'')) :: (int, js_value, unit) comp) ()
       = (Inr (Left (Error ''URI malformed'')), ())
   \<and> Try_either ToString_js (throw ThrownUndefined :: (int, js_value, unit) comp) ()
       = (Inr (Left (Error [])), ())
   \<and> Try_either ToString_js
         (throw (ThrownValue (JSString ''boom'')) :: (int, js_value, unit) comp) ()
       = (Inr (Left (Error ''boom'')), ())"
  using Try_converts_faults [of "return (10 :: int)" "()" 10 "()" ToString_js]
    Try_converts_faults [of "throw (ThrownError (Error ''URI malformed'')) :: (int, js_value, unit) comp"
      "()" _ "()" ToString_js "ThrownError (Error ''URI malformed'')" "Error ''URI malformed''"]
    Try_converts_faults [of "throw ThrownUndefined :: (int, js_value, unit) comp"
      "()" _ "()" ToString_js]
    Try_converts_faults [of "throw (ThrownValue (JSString ''boom'')) :: (int, js_value, unit) comp"
      "()" _ "()" ToString_js _ _ "JSString ''boom''" "''boom''" "()"]
  by (simp add: return_def throw_def)

section \<open>The pseudo-random generator\<close>

lemma asIntN_bounds:
  assumes "0 < bits"
  shows "- (2 ^ (bits - 1)) \<le> asIntN bits x \<and> asIntN bits x < 2 ^ (bits - 1)"
proof -
  define h :: int where "h = 2 ^ (bits - 1)"
  define m where "m = x mod 2 ^ bits"
  have p: "(2::int) ^ bits = 2 * h"
    using assms by (cases bits) (simp_all add: h_def)
  have h: "0 < h" by (simp add: h_def)
  have "0 \<le> m \<and> m < 2 ^ bits"
    by (simp add: m_def)
  then have m: "0 \<le> m \<and> m < 2 * h"
    unfolding p .
  have "asIntN bits x = (if h \<le> m then m - 2 ^ bits else m)"
    unfolding asIntN_def Let_def h_def m_def using assms by simp
  then have "asIntN bits x = (if h \<le> m then m - 2 * h else m)"
    unfolding p .
  then show ?thesis
    using m h unfolding h_def [symmetric] by auto
qed

lemma asIntN_id:
  assumes "0 \<le> x" "x < 2 ^ (bits - 1)" "0 < bits"
  shows "asIntN bits x = x"
proof -
  have "(2::int) ^ bits = 2 * 2 ^ (bits - 1)"
    using assms by (cases bits) simp_all
  then have "x < 2 ^ bits" using assms by simp
  then have "x mod 2 ^ bits = x" using assms by simp
  then show ?thesis using assms by (simp add: asIntN_def Let_def)
qed

lemma newSeed_bounds:
  "0 \<le> (y::int) AND 0xFFFFFFFFFFFF \<and> y AND 0xFFFFFFFFFFFF < 2 ^ 48"
proof -
  have "y AND 0xFFFFFFFFFFFF \<le> 0xFFFFFFFFFFFF"
    by (rule AND_upper2) simp
  moreover have "0 \<le> y AND 0xFFFFFFFFFFFF"
    by simp
  ultimately show ?thesis by simp
qed

lemma nextInt_value:
  "nextInt rng =
     Some (asIntN 32 (drop_bit 16 (asIntN 64 (seed rng * 0x5DEECE66D + 0xB) AND 0xFFFFFFFFFFFF)),
           \<lparr>seed = asIntN 64 (seed rng * 0x5DEECE66D + 0xB) AND 0xFFFFFFFFFFFF\<rparr>)"
proof -
  define y where "y = asIntN 64 (seed rng * 0x5DEECE66D + 0xB) AND 0xFFFFFFFFFFFF"
  have y: "0 \<le> y" "y < 2 ^ 48"
    using newSeed_bounds [of "asIntN 64 (seed rng * 0x5DEECE66D + 0xB)"] by (simp_all add: y_def)
  have n: "- (2 ^ 31) \<le> asIntN 32 (drop_bit 16 y)" "asIntN 32 (drop_bit 16 y) < 2 ^ 31"
    using asIntN_bounds [of 32 "drop_bit 16 y"] by simp_all
  then have "\<bar>asIntN 32 (drop_bit 16 y)\<bar> \<le> 2 ^ 53" by simp
  then have N: "Number (asIntN 32 (drop_bit 16 y)) = Some (asIntN 32 (drop_bit 16 y))"
    by (simp add: Number_def)
  have "asIntN 64 y = y"
    using y by (intro asIntN_id) simp_all
  then show ?thesis
    using N by (simp add: nextInt_def Let_def new_SimpleRNG_def y_def [symmetric])
qed

text \<open>
  C10. \<^verbatim>\<open>nextInt\<close> gives equal results on generators with equal seeds. On every
  generator it returns, the seed of the generator it returns lies in \<open>[0, 2 ^ 48)\<close>,
  and the integer it returns lies in \<open>[- 2 ^ 31, 2 ^ 31 - 1]\<close>.
\<close>

theorem nextInt_deterministic_in_range:
  "(seed r1 = seed r2 \<longrightarrow> nextInt r1 = nextInt r2)
   \<and> (\<exists>n next. nextInt r1 = Some (n, next)
        \<and> 0 \<le> seed next \<and> seed next < 2 ^ 48
        \<and> - (2 ^ 31) \<le> n \<and> n \<le> 2 ^ 31 - 1)"
proof -
  define y where "y = asIntN 64 (seed r1 * 0x5DEECE66D + 0xB) AND 0xFFFFFFFFFFFF"
  have y: "0 \<le> y \<and> y < 2 ^ 48"
    unfolding y_def by (rule newSeed_bounds)
  have n: "- (2 ^ 31) \<le> asIntN 32 (drop_bit 16 y) \<and> asIntN 32 (drop_bit 16 y) < 2 ^ 31"
    using asIntN_bounds [of 32 "drop_bit 16 y"] by simp
  have "nextInt r1 = Some (asIntN 32 (drop_bit 16 y), \<lparr>seed = y\<rparr>)"
    unfolding y_def by (rule nextInt_value)
  moreover have "seed r1 = seed r2 \<longrightarrow> nextInt r1 = nextInt r2"
    by (simp add: nextInt_def)
  ultimately show ?thesis using y n by simp
qed

theorem nextInt_deterministic_in_range_witness:
  "seed (new_SimpleRNG 42) = seed (new_SimpleRNG (42 + 2 ^ 64))
   \<and> nextInt (new_SimpleRNG 42) = nextInt (new_SimpleRNG (42 + 2 ^ 64))
   \<and> nextInt (new_SimpleRNG 42) = Some (16159453, \<lparr>seed = 1059025964525\<rparr>)"
  using nextInt_deterministic_in_range [of "new_SimpleRNG 42" "new_SimpleRNG (42 + 2 ^ 64)"]
  by (simp add: nextInt_def new_SimpleRNG_def asIntN_def Number_def Let_def drop_bit_eq_div)

end
